theory Spec2Isabelle
  imports Main
begin

section \<open>The tokens screen of the wallet extension: AccountTokens.tsx\<close>

text \<open>
  The component \<open>AccountTokens\<close> reads an \<open>account\<close> prop and a number of hooks, runs four
  effects and returns a JSX tree. The embedding follows the file top to bottom:
  \<^item> the values the hooks return in one render are a record \<open>env\<close>; a hook or helper that
    is called with the account is a field that takes the account;
  \<^item> the JSX tree is a datatype with one constructor per element of the \<open>return\<close>
    statement; a child written \<open>{c && <X />}\<close> is present when \<open>c\<close> holds and absent
    otherwise;
  \<^item> the effects are functions on an explicit component state (the dependencies of the
    previous render, the \<open>useRef\<close> cell, the timers), and the calls they make to
    collaborators are a list of actions, in the order they are made;
  \<^item> a call that may throw returns a sum, with \<open>Inl\<close> the thrown value (a mutator that
    may throw returns the object as it left it, and what it threw, if anything).
\<close>

subsection \<open>Values\<close>

type_synonym status = string
type_synonym tx = string
type_synonym token_details = string
type_synonym account_names = "(string \<times> string) list"

text \<open>A thrown or reported error value. Reported errors are objects, hence truthy.\<close>

datatype js_error = Error string

text \<open>The calls \<open>routes.userReview()\<close>, \<open>routes.networkUpgradeV4()\<close>,
  \<open>routes.accountUpgradeV4()\<close> and \<open>routes.funding()\<close>.\<close>

datatype route = UserReview | NetworkUpgradeV4 | AccountUpgradeV4 | Funding

datatype variant = Default | NoCurrency

text \<open>What \<open>useTokensWithBalance(account)\<close> returns.\<close>

record tokens_with_balance =
  isValidating :: bool
  error :: "js_error option"
  tokenDetails :: "token_details list"
  tokenDetailsIsInitialising :: bool

text \<open>
  The hook values of one render. \<open>useNavigate\<close> is the identity of the \<open>navigate\<close>
  function (it is a dependency of the first effect), \<open>useSWR_data\<close> the \<open>data\<close> field of
  the upgrade poller (\<open>None\<close> while it is \<open>undefined\<close>) and \<open>useSWR_mutate\<close> the identity of
  its \<open>mutate\<close> function (a dependency of the second effect), \<open>useFeeTokenBalance\<close> the
  \<open>feeTokenBalance\<close> big number (\<open>None\<close> while it is \<open>undefined\<close>).
\<close>

record 'a env =
  useNavigate :: nat
  useLocation :: string
  useAccountStatus :: "'a \<Rightarrow> status"
  useAccountTransactions :: "'a \<Rightarrow> tx list"
  useAccountMetadata :: account_names
  useBackupRequired :: bool
  useCurrencyDisplayEnabled :: bool
  transactionsBeforeReview :: int
  hasReviewed :: bool
  getAccountName :: "'a \<Rightarrow> account_names \<Rightarrow> string"
  useShouldShowNetworkUpgradeMessage :: bool
  useFeeTokenBalance :: "'a \<Rightarrow> int option"
  useTokensWithBalance :: "'a \<Rightarrow> tokens_with_balance"
  useSWR_data :: "bool option"
  useSWR_mutate :: nat
  isDeprecated :: "'a \<Rightarrow> bool"
  useAccountIsDeployed :: "'a \<Rightarrow> bool"

subsection \<open>Derived booleans (lines 63, 84, 104-111, 137)\<close>

definition hasPendingTransactions :: "'a env \<Rightarrow> 'a \<Rightarrow> bool" where
  "hasPendingTransactions e a = (length (useAccountTransactions e a) > 0)"

text \<open>\<open>const { data: needsUpgrade = false } = useSWR(...)\<close>: the default applies to
  \<open>undefined\<close>.\<close>

definition needsUpgrade :: "'a env \<Rightarrow> bool" where
  "needsUpgrade e = (case useSWR_data e of None \<Rightarrow> False | Some b \<Rightarrow> b)"

text \<open>\<open>feeTokenBalance?.gt(0)\<close> and \<open>feeTokenBalance?.lte(0)\<close>: \<open>undefined\<close> when the
  balance is, a boolean otherwise.\<close>

definition opt_gt :: "int option \<Rightarrow> int \<Rightarrow> bool option" where
  "opt_gt b n = (case b of None \<Rightarrow> None | Some v \<Rightarrow> Some (v > n))"

definition opt_lte :: "int option \<Rightarrow> int \<Rightarrow> bool option" where
  "opt_lte b n = (case b of None \<Rightarrow> None | Some v \<Rightarrow> Some (v \<le> n))"

text \<open>\<open>Boolean(x)\<close> for \<open>x\<close> a boolean or \<open>undefined\<close>.\<close>

definition Boolean :: "bool option \<Rightarrow> bool" where
  "Boolean x = (case x of None \<Rightarrow> False | Some b \<Rightarrow> b)"

text \<open>\<open>p && q && x\<close> with \<open>p\<close>, \<open>q\<close> booleans: \<open>false\<close> when one of them is, else \<open>x\<close>.\<close>

definition and3 :: "bool \<Rightarrow> bool \<Rightarrow> bool option \<Rightarrow> bool option" where
  "and3 p q x = (if \<not> p then Some False else if \<not> q then Some False else x)"

definition showUpgradeBanner :: "'a env \<Rightarrow> 'a \<Rightarrow> bool" where
  "showUpgradeBanner e a =
     Boolean (and3 (needsUpgrade e) (\<not> hasPendingTransactions e a)
                   (opt_gt (useFeeTokenBalance e a) 0))"

definition showNoBalanceForUpgrade :: "'a env \<Rightarrow> 'a \<Rightarrow> bool" where
  "showNoBalanceForUpgrade e a =
     Boolean (and3 (needsUpgrade e) (\<not> hasPendingTransactions e a)
                   (opt_lte (useFeeTokenBalance e a) 0))"

definition showBackupBanner :: "'a env \<Rightarrow> 'a \<Rightarrow> bool" where
  "showBackupBanner e a = (useBackupRequired e \<and> \<not> showUpgradeBanner e a)"

definition tokenListVariant :: "'a env \<Rightarrow> variant" where
  "tokenListVariant e = (if useCurrencyDisplayEnabled e then Default else NoCurrency)"

subsection \<open>The JSX tree (lines 139-192)\<close>

text \<open>
  One constructor per element, with its props in the order of the source:
  \<open>Flex direction data-testid children\<close>, \<open>VStack spacing mb children\<close>,
  \<open>AccountTokensHeader status account accountName onRedeploy\<close> (the callback is
  memoised on the account, and stands here as the account it closes over),
  \<open>CellStack py children\<close>, \<open>UpgradeBanner canNotPay to state.from\<close>,
  \<open>TokenListMulticall variant showNewTokenButton\<close>, \<open>ErrorBoundary fallback children\<close>,
  \<open>ErrorBoundaryFallbackWithCopyError error message\<close>,
  \<open>TokenList showTitle isValidating tokenList variant children\<close>,
  \<open>NewTokenButton isLoading\<close>.
\<close>

datatype 'a jsx =
    Flex string string "'a jsx list"
  | VStack nat nat "'a jsx list"
  | AccountTokensHeader status 'a string 'a
  | AccountTokensButtons 'a
  | CellStack nat "'a jsx list"
  | StatusMessageBannerContainer
  | MigrationBanner
  | RecoveryBanner
  | UpgradeBanner bool route "string option"
  | TokenListMulticall variant bool
  | ErrorBoundary "'a jsx" "'a jsx list"
  | ErrorBoundaryFallbackWithCopyError "js_error option" string
  | TokenList bool bool "token_details list" variant "'a jsx list"
  | NewTokenButton bool

text \<open>\<open>{c && <X />}\<close> as a list of children: \<open>X\<close> when \<open>c\<close> holds, nothing otherwise.\<close>

definition cond_child :: "bool \<Rightarrow> 'a jsx \<Rightarrow> 'a jsx list" where
  "cond_child c x = (if c then [x] else [])"

definition fetching_tokens_message :: string where
  "fetching_tokens_message = ''Sorry, an error occurred fetching tokens''"

text \<open>The child of the error boundary (lines 174-188).\<close>

definition token_list_or_error :: "'a env \<Rightarrow> 'a \<Rightarrow> 'a jsx" where
  "token_list_or_error e a =
     (case error (useTokensWithBalance e a) of
        Some err \<Rightarrow> ErrorBoundaryFallbackWithCopyError (Some err) fetching_tokens_message
      | None \<Rightarrow>
          TokenList (hasPendingTransactions e a)
                    (isValidating (useTokensWithBalance e a))
                    (tokenDetails (useTokensWithBalance e a))
                    (tokenListVariant e)
                    [NewTokenButton (tokenDetailsIsInitialising (useTokensWithBalance e a))])"

definition banners :: "'a env \<Rightarrow> 'a \<Rightarrow> 'a jsx list" where
  "banners e a =
     [StatusMessageBannerContainer]
     @ cond_child (isDeprecated e a) MigrationBanner
     @ cond_child (showBackupBanner e a) RecoveryBanner
     @ cond_child (showUpgradeBanner e a)
         (UpgradeBanner False AccountUpgradeV4 (Some (useLocation e)))
     @ cond_child (showNoBalanceForUpgrade e a) (UpgradeBanner True Funding None)
     @ [TokenListMulticall (tokenListVariant e) True]"

definition AccountTokens_jsx :: "'a env \<Rightarrow> 'a \<Rightarrow> 'a jsx" where
  "AccountTokens_jsx e a =
     Flex ''column'' ''account-tokens''
       ([VStack 6 6
           [AccountTokensHeader (useAccountStatus e a) a
              (getAccountName e a (useAccountMetadata e)) a,
            AccountTokensButtons a],
         CellStack 0 (banners e a)]
        @ cond_child (useAccountIsDeployed e a)
            (ErrorBoundary
               (ErrorBoundaryFallbackWithCopyError None fetching_tokens_message)
               [token_list_or_error e a]))"

subsection \<open>What a tree renders\<close>

text \<open>
  The elements a tree renders: the element itself and everything its children render.
  The \<open>fallback\<close> prop of an error boundary is a prop, not a child: it is mounted only if
  a child throws while rendering.
\<close>

fun subtrees :: "'a jsx \<Rightarrow> 'a jsx list" where
  "subtrees (Flex d t cs) = Flex d t cs # concat (map subtrees cs)"
| "subtrees (VStack s m cs) = VStack s m cs # concat (map subtrees cs)"
| "subtrees (CellStack p cs) = CellStack p cs # concat (map subtrees cs)"
| "subtrees (ErrorBoundary f cs) = ErrorBoundary f cs # concat (map subtrees cs)"
| "subtrees (TokenList t v l va cs) = TokenList t v l va cs # concat (map subtrees cs)"
| "subtrees x = [x]"

fun is_upgrade_banner :: "'a jsx \<Rightarrow> bool" where
  "is_upgrade_banner (UpgradeBanner False AccountUpgradeV4 s) = True"
| "is_upgrade_banner x = False"

fun is_no_balance_banner :: "'a jsx \<Rightarrow> bool" where
  "is_no_balance_banner (UpgradeBanner True Funding s) = True"
| "is_no_balance_banner x = False"

definition renders :: "('a jsx \<Rightarrow> bool) \<Rightarrow> 'a jsx \<Rightarrow> bool" where
  "renders p t = list_ex p (subtrees t)"

subsection \<open>Timers\<close>

text \<open>
  The timers of the window: the pending ones, each with its handle, its delay in
  milliseconds and the route its callback navigates to (the only callback this file
  gives to \<open>setTimeout\<close> is \<open>() => navigate(routes.userReview())\<close>), and the next
  handle. The passing of time is not part of the model: a timer stays pending until it
  is cleared.
\<close>

record timers =
  pending :: "(nat \<times> nat \<times> route) list"
  next_id :: nat

definition setTimeout :: "route \<Rightarrow> nat \<Rightarrow> timers \<Rightarrow> nat \<times> timers" where
  "setTimeout cb ms t =
     (next_id t, t\<lparr>pending := pending t @ [(next_id t, ms, cb)], next_id := Suc (next_id t)\<rparr>)"

definition clearTimeout :: "nat \<Rightarrow> timers \<Rightarrow> timers" where
  "clearTimeout i t = t\<lparr>pending := filter (\<lambda>(j, ms, cb). j \<noteq> i) (pending t)\<rparr>"

subsection \<open>The effects (lines 71-77, 113-135)\<close>

text \<open>The calls the effects make to collaborators.\<close>

datatype 'a action =
    Navigate route
  | UpdateLastShownNetworkUpgradeMessage
  | ConnectAccount 'a
  | Mutate bool

text \<open>
  Lines 71-77. The body returns the \<open>timeoutId\<close> its cleanup closes over (\<open>None\<close> while
  the variable is unassigned). The cleanup is \<open>() => timeoutId && clearTimeout(timeoutId)\<close>:
  it clears a handle that is truthy, that is, not \<open>0\<close>.
\<close>

definition review_effect :: "'a env \<Rightarrow> timers \<Rightarrow> nat option \<times> timers" where
  "review_effect e t =
     (if \<not> hasReviewed e \<and> transactionsBeforeReview e = 0
      then (case setTimeout UserReview 1000 t of (i, t') \<Rightarrow> (Some i, t'))
      else (None, t))"

definition review_cleanup :: "nat option \<Rightarrow> timers \<Rightarrow> timers" where
  "review_cleanup timeoutId t =
     (case timeoutId of
        None \<Rightarrow> t
      | Some i \<Rightarrow> if i = 0 then t else clearTimeout i t)"

text \<open>Lines 113-123, on the \<open>useRef\<close> cell: the new content of the cell and the calls.\<close>

definition pending_effect :: "bool \<Rightarrow> bool \<Rightarrow> bool \<times> 'a action list" where
  "pending_effect has had =
     (let had1 = (if has then True else had)
      in if had1 \<and> has = False then (False, [Mutate False]) else (had1, []))"

text \<open>Lines 125-127.\<close>

definition connect_effect :: "'a \<Rightarrow> 'a action list" where
  "connect_effect a = [ConnectAccount a]"

text \<open>Lines 129-135.\<close>

definition upgrade_message_effect :: "'a env \<Rightarrow> 'a action list" where
  "upgrade_message_effect e =
     (if useShouldShowNetworkUpgradeMessage e
      then [UpdateLastShownNetworkUpgradeMessage, Navigate NetworkUpgradeV4]
      else [])"

subsection \<open>The component (lines 48-193)\<close>

text \<open>
  What the component keeps between renders: for each effect the dependency array of the
  previous render (\<open>None\<close> before the first render), the \<open>timeoutId\<close> of the first
  effect's last run, the \<open>hadPendingTransactions\<close> cell, and the window's timers.
\<close>

record 'a component =
  review_deps :: "(nat \<times> int \<times> bool) option"
  timeoutId :: "nat option"
  pending_deps :: "(nat \<times> bool) option"
  hadPendingTransactions :: bool
  connect_deps :: "'a option"
  upgrade_deps :: "bool option"
  window_timers :: timers

text \<open>The component before its first render; \<open>useRef(false)\<close> starts the cell.\<close>

definition mount :: "timers \<Rightarrow> 'a component" where
  "mount t =
     \<lparr>review_deps = None, timeoutId = None, pending_deps = None,
      hadPendingTransactions = False, connect_deps = None, upgrade_deps = None,
      window_timers = t\<rparr>"

text \<open>\<open>useEffect(f, deps)\<close> runs \<open>f\<close> after the first render and after every render in
  which a dependency differs from its value in the previous render.\<close>

definition deps_changed :: "'d option \<Rightarrow> 'd \<Rightarrow> bool" where
  "deps_changed prev cur = (prev \<noteq> Some cur)"

text \<open>
  One render: the tree, the calls of the effects in the order of the source, and the
  component afterwards. An effect that runs again runs the cleanup of its last run first.
\<close>

definition AccountTokens ::
  "'a component \<Rightarrow> 'a \<Rightarrow> 'a env \<Rightarrow> 'a jsx \<times> 'a action list \<times> 'a component" where
  "AccountTokens c account e =
     (let d1 = (useNavigate e, transactionsBeforeReview e, hasReviewed e);
          r1 = (if deps_changed (review_deps c) d1
                then review_effect e (review_cleanup (timeoutId c) (window_timers c))
                else (timeoutId c, window_timers c));
          d2 = (useSWR_mutate e, hasPendingTransactions e account);
          r2 = (if deps_changed (pending_deps c) d2
                then pending_effect (hasPendingTransactions e account) (hadPendingTransactions c)
                else (hadPendingTransactions c, []));
          a3 = (if deps_changed (connect_deps c) account then connect_effect account else []);
          d4 = useShouldShowNetworkUpgradeMessage e;
          a4 = (if deps_changed (upgrade_deps c) d4 then upgrade_message_effect e else [])
      in (AccountTokens_jsx e account,
          snd r2 @ a3 @ a4,
          \<lparr>review_deps = Some d1, timeoutId = fst r1, pending_deps = Some d2,
           hadPendingTransactions = fst r2, connect_deps = Some account,
           upgrade_deps = Some d4, window_timers = snd r1\<rparr>))"

text \<open>Unmounting runs the cleanup of the first effect; the timers are what is left.\<close>

definition unmount :: "'a component \<Rightarrow> timers" where
  "unmount c = review_cleanup (timeoutId c) (window_timers c)"

text \<open>A sequence of renders, each with its props and hook values, from a component.\<close>

fun renders_from :: "'a component \<Rightarrow> ('a \<times> 'a env) list \<Rightarrow> 'a component" where
  "renders_from c [] = c"
| "renders_from c ((a, e) # rs) = renders_from (snd (snd (AccountTokens c a e))) rs"

subsection \<open>The redeploy callback (lines 94-102)\<close>

text \<open>
  The collaborators of \<open>onRedeploy\<close>, none of them in this file:
  \<open>account.toBaseWalletAccount()\<close>, which returns the data or throws;
  \<open>redeployAccount(data)\<close>, whose promise resolves to a result with a \<open>txHash\<close> or
  rejects; \<open>account.updateDeployTx(txHash)\<close>, which leaves the account in some state and
  may throw.
\<close>

record redeploy_result =
  txHash :: string

record ('a, 'd) services =
  toBaseWalletAccount :: "'a \<Rightarrow> js_error + 'd"
  redeployAccount :: "'d \<Rightarrow> js_error + redeploy_result"
  updateDeployTx :: "'a \<Rightarrow> string \<Rightarrow> 'a \<times> js_error option"

datatype 'd call = RedeployAccount 'd | UpdateDeployTx string

text \<open>
  \<open>Inl\<close> is a rejected promise: the error reaches the caller. \<open>Inr\<close> is a resolved one,
  with the account afterwards and the calls made, in order. \<open>toBaseWalletAccount\<close> is
  called outside the \<open>try\<close>; whatever is thrown inside it is caught and dropped.
\<close>

definition onRedeploy :: "('a, 'd) services \<Rightarrow> 'a \<Rightarrow> js_error + ('a \<times> 'd call list)" where
  "onRedeploy s account =
     (case toBaseWalletAccount s account of
        Inl x \<Rightarrow> Inl x
      | Inr data \<Rightarrow>
          (case redeployAccount s data of
             Inl x \<Rightarrow> Inr (account, [RedeployAccount data])
           | Inr result \<Rightarrow>
               (case updateDeployTx s account (txHash result) of
                  (account', thrown) \<Rightarrow>
                    Inr (account', [RedeployAccount data, UpdateDeployTx (txHash result)]))))"

subsection \<open>Elements and calls the properties speak of\<close>

fun is_recovery_banner :: "'a jsx \<Rightarrow> bool" where
  "is_recovery_banner RecoveryBanner = True"
| "is_recovery_banner x = False"

fun is_migration_banner :: "'a jsx \<Rightarrow> bool" where
  "is_migration_banner MigrationBanner = True"
| "is_migration_banner x = False"

fun is_error_boundary :: "'a jsx \<Rightarrow> bool" where
  "is_error_boundary (ErrorBoundary f cs) = True"
| "is_error_boundary x = False"

fun is_token_list :: "'a jsx \<Rightarrow> bool" where
  "is_token_list (TokenList t v l va cs) = True"
| "is_token_list x = False"

text \<open>The copy-error element carrying the message of this screen.\<close>

fun is_copy_error_fallback :: "'a jsx \<Rightarrow> bool" where
  "is_copy_error_fallback (ErrorBoundaryFallbackWithCopyError err msg) =
     (msg = fetching_tokens_message)"
| "is_copy_error_fallback x = False"

text \<open>The two calls of the fourth effect.\<close>

fun is_upgrade_call :: "'a action \<Rightarrow> bool" where
  "is_upgrade_call UpdateLastShownNetworkUpgradeMessage = True"
| "is_upgrade_call (Navigate NetworkUpgradeV4) = True"
| "is_upgrade_call x = False"

text \<open>
  The invariant of the first effect, relative to the timers \<open>t0\<close> the component was
  mounted with: the component owns at most one pending timer, the one its \<open>timeoutId\<close>
  names, scheduled for the user-review route after 1000 ms, and it owns one exactly when
  the dependencies of the previous render ask for it.
\<close>

definition review_inv :: "timers \<Rightarrow> 'a component \<Rightarrow> bool" where
  "review_inv t0 c =
     (next_id t0 \<le> next_id (window_timers c)
      \<and> (case timeoutId c of
            None \<Rightarrow> pending (window_timers c) = pending t0
          | Some i \<Rightarrow> 0 < i \<and> next_id t0 \<le> i \<and> i < next_id (window_timers c)
                      \<and> pending (window_timers c) = pending t0 @ [(i, 1000, UserReview)])
      \<and> (case review_deps c of
            None \<Rightarrow> timeoutId c = None
          | Some (n, tbr, hr) \<Rightarrow> (timeoutId c \<noteq> None) = (\<not> hr \<and> tbr = 0)))"

subsection \<open>Sample inputs\<close>

text \<open>
  An account (number 1) that is deployed, needs an upgrade and can pay for it, has no
  pending transaction, requires a backup, whose user has not reviewed and has no
  transaction left before the review, and for which the network-upgrade notice is due.
\<close>

definition sample_env :: "nat env" where
  "sample_env =
     \<lparr>useNavigate = 1, useLocation = ''/account/tokens'',
      useAccountStatus = (\<lambda>a. ''DEPLOYED''), useAccountTransactions = (\<lambda>a. []),
      useAccountMetadata = [], useBackupRequired = True,
      useCurrencyDisplayEnabled = True, transactionsBeforeReview = 0,
      hasReviewed = False, getAccountName = (\<lambda>a names. ''Account 1''),
      useShouldShowNetworkUpgradeMessage = True,
      useFeeTokenBalance = (\<lambda>a. Some 5),
      useTokensWithBalance =
        (\<lambda>a. \<lparr>isValidating = False, error = None, tokenDetails = [''ETH''],
              tokenDetailsIsInitialising = False\<rparr>),
      useSWR_data = Some True, useSWR_mutate = 1,
      isDeprecated = (\<lambda>a. a = 0), useAccountIsDeployed = (\<lambda>a. True)\<rparr>"

text \<open>The same account when the token-balance hook reports an error.\<close>

definition failed_tokens :: tokens_with_balance where
  "failed_tokens =
     \<lparr>isValidating = False, error = Some (Error ''timeout''), tokenDetails = [],
      tokenDetailsIsInitialising = False\<rparr>"

definition sample_timers :: timers where
  "sample_timers = \<lparr>pending = [], next_id = 1\<rparr>"

text \<open>
  Collaborators of the redeploy callback over an account that is its deploy transaction:
  with the first the service rejects, with the second it resolves.
\<close>

definition rejecting_services :: "(string option, string) services" where
  "rejecting_services =
     \<lparr>toBaseWalletAccount = (\<lambda>a. Inr ''0xabc''),
      redeployAccount = (\<lambda>d. Inl (Error ''rejected'')),
      updateDeployTx = (\<lambda>a h. (Some h, None))\<rparr>"

definition resolving_services :: "(string option, string) services" where
  "resolving_services =
     \<lparr>toBaseWalletAccount = (\<lambda>a. Inr ''0xabc''),
      redeployAccount = (\<lambda>d. Inr \<lparr>txHash = ''0x1''\<rparr>),
      updateDeployTx = (\<lambda>a h. (Some h, None))\<rparr>"

section \<open>Auxiliary facts\<close>

lemma fst_AccountTokens: "fst (AccountTokens c a e) = AccountTokens_jsx e a"
  by (simp add: AccountTokens_def Let_def)

lemmas tree_defs =
  renders_def AccountTokens_jsx_def banners_def cond_child_def token_list_or_error_def
  showUpgradeBanner_def showNoBalanceForUpgrade_def showBackupBanner_def Boolean_def
  and3_def opt_gt_def opt_lte_def hasPendingTransactions_def

lemmas effect_defs =
  AccountTokens_def Let_def pending_effect_def connect_effect_def
  upgrade_message_effect_def

text \<open>The derived booleans in terms of the hook values.\<close>

lemma showUpgradeBanner_iff:
  "showUpgradeBanner e a =
     (needsUpgrade e \<and> useAccountTransactions e a = []
      \<and> (\<exists>b. useFeeTokenBalance e a = Some b \<and> 0 < b))"
  by (cases "useFeeTokenBalance e a")
     (simp_all add: showUpgradeBanner_def Boolean_def and3_def opt_gt_def
        hasPendingTransactions_def)

lemma showNoBalanceForUpgrade_iff:
  "showNoBalanceForUpgrade e a =
     (needsUpgrade e \<and> useAccountTransactions e a = []
      \<and> (\<exists>b. useFeeTokenBalance e a = Some b \<and> b \<le> 0))"
  by (cases "useFeeTokenBalance e a")
     (simp_all add: showNoBalanceForUpgrade_def Boolean_def and3_def opt_lte_def
        hasPendingTransactions_def)

text \<open>
  What the tree renders, for a property of elements that holds of none of the fixed
  elements: the conditional children of the cell stack and the content of the boundary.
\<close>

lemma renders_banner:
  assumes "\<And>d t cs. \<not> p (Flex d t cs)" "\<And>s m cs. \<not> p (VStack s m cs)"
    "\<And>s x n y. \<not> p (AccountTokensHeader s x n y)" "\<And>x. \<not> p (AccountTokensButtons x)"
    "\<And>n cs. \<not> p (CellStack n cs)" "\<not> p StatusMessageBannerContainer"
    "\<And>v b. \<not> p (TokenListMulticall v b)" "\<And>f cs. \<not> p (ErrorBoundary f cs)"
    "\<And>x m. \<not> p (ErrorBoundaryFallbackWithCopyError x m)"
    "\<And>t v l va cs. \<not> p (TokenList t v l va cs)" "\<And>b. \<not> p (NewTokenButton b)"
  shows "renders p (AccountTokens_jsx e a) =
     (isDeprecated e a \<and> p MigrationBanner
      \<or> showBackupBanner e a \<and> p RecoveryBanner
      \<or> showUpgradeBanner e a \<and> p (UpgradeBanner False AccountUpgradeV4 (Some (useLocation e)))
      \<or> showNoBalanceForUpgrade e a \<and> p (UpgradeBanner True Funding None))"
  using assms
  by (cases "error (useTokensWithBalance e a)")
     (auto simp: renders_def AccountTokens_jsx_def banners_def cond_child_def
        token_list_or_error_def)

lemma renders_upgrade_banner:
  "renders is_upgrade_banner (AccountTokens_jsx e a) = showUpgradeBanner e a"
  by (subst renders_banner) simp_all

lemma renders_no_balance_banner:
  "renders is_no_balance_banner (AccountTokens_jsx e a) = showNoBalanceForUpgrade e a"
  by (subst renders_banner) simp_all

lemma renders_recovery_banner:
  "renders is_recovery_banner (AccountTokens_jsx e a) = showBackupBanner e a"
  by (subst renders_banner) simp_all

lemma renders_migration_banner:
  "renders is_migration_banner (AccountTokens_jsx e a) = isDeprecated e a"
  by (subst renders_banner) simp_all

lemma review_inv_mount: "review_inv t0 (mount t0)"
  by (simp add: review_inv_def mount_def)

lemma filter_fresh:
  assumes "\<forall>x\<in>set xs. fst x < (n::nat)" and "n \<le> i"
  shows "filter (\<lambda>(j, ms, cb). j \<noteq> i) xs = xs"
  using assms by (induction xs) auto

text \<open>Under the invariant the cleanup gives back the timers the component found.\<close>

lemma cleanup_restores:
  assumes "\<forall>x\<in>set (pending t0). fst x < next_id t0" and "review_inv t0 c"
  shows "pending (review_cleanup (timeoutId c) (window_timers c)) = pending t0"
    and "next_id (review_cleanup (timeoutId c) (window_timers c)) = next_id (window_timers c)"
  using assms filter_fresh[OF assms(1)]
  by (auto simp: review_inv_def review_cleanup_def clearTimeout_def split: option.splits)

lemma review_inv_step:
  assumes fresh: "\<forall>x\<in>set (pending t0). fst x < next_id t0" and pos: "0 < next_id t0"
    and inv: "review_inv t0 c"
  shows "review_inv t0 (snd (snd (AccountTokens c a e)))"
proof (cases "deps_changed (review_deps c)
                (useNavigate e, transactionsBeforeReview e, hasReviewed e)")
  case False
  then show ?thesis using inv
    by (auto simp: AccountTokens_def Let_def review_inv_def deps_changed_def
        split: option.splits)
next
  case True
  let ?t = "review_cleanup (timeoutId c) (window_timers c)"
  have p: "pending ?t = pending t0" and n: "next_id ?t = next_id (window_timers c)"
    using cleanup_restores[OF fresh inv] by simp_all
  have le: "next_id t0 \<le> next_id (window_timers c)"
    using inv by (simp add: review_inv_def)
  show ?thesis using True p n le pos
    by (simp add: AccountTokens_def Let_def review_inv_def review_effect_def setTimeout_def)
qed

lemma review_inv_renders:
  assumes fresh: "\<forall>x\<in>set (pending t0). fst x < next_id t0" and pos: "0 < next_id t0"
  shows "review_inv t0 c \<Longrightarrow> review_inv t0 (renders_from c rs)"
proof (induction rs arbitrary: c)
  case Nil
  then show ?case by simp
next
  case (Cons r rs)
  obtain a e where r: "r = (a, e)" by (cases r)
  show ?case
    using Cons.IH[OF review_inv_step[OF fresh pos Cons.prems, of a e]] r by simp
qed

lemma renders_from_snoc:
  "renders_from c (rs @ [(a, e)]) = snd (snd (AccountTokens (renders_from c rs) a e))"
  by (induction rs arbitrary: c) auto

lemma review_deps_after:
  "review_deps (snd (snd (AccountTokens c a e))) =
     Some (useNavigate e, transactionsBeforeReview e, hasReviewed e)"
  by (simp add: AccountTokens_def Let_def)

text \<open>The fourth effect within a render: what the component remembers of its
  dependency, and the calls of a render that are its calls.\<close>

lemma upgrade_deps_after:
  "upgrade_deps (snd (snd (AccountTokens c a e))) =
     Some (useShouldShowNetworkUpgradeMessage e)"
  by (simp add: AccountTokens_def Let_def)

lemma upgrade_calls:
  "filter is_upgrade_call (fst (snd (AccountTokens c a e))) =
     (if deps_changed (upgrade_deps c) (useShouldShowNetworkUpgradeMessage e)
      then upgrade_message_effect e else [])"
proof -
  have other: "filter is_upgrade_call (snd (pending_effect has had)) = []" for has had
    by (simp add: pending_effect_def Let_def)
  show ?thesis
    by (simp add: AccountTokens_def Let_def other connect_effect_def
        upgrade_message_effect_def)
qed





lemma sample_timers_fresh:
  "\<forall>x\<in>set (pending sample_timers). fst x < next_id sample_timers"
  by (simp add: sample_timers_def)

lemma sample_timers_pos: "0 < next_id sample_timers"
  by (simp add: sample_timers_def)

section \<open>The redeploy callback\<close>

text \<open>
  C1. Once \<open>account.toBaseWalletAccount()\<close> has returned the data: if
  \<open>redeployAccount\<close> throws, \<open>onRedeploy\<close> completes without an error for its caller,
  \<open>account.updateDeployTx\<close> is not called and the account is as it was; if
  \<open>redeployAccount\<close> succeeds, \<open>account.updateDeployTx\<close> is called with the \<open>txHash\<close>
  of the result (and \<open>onRedeploy\<close> completes without an error as well).
\<close>

theorem onRedeploy_swallows_error:
  assumes "toBaseWalletAccount s account = Inr data"
  shows "(\<forall>x. redeployAccount s data = Inl x \<longrightarrow>
            onRedeploy s account = Inr (account, [RedeployAccount data]))
       \<and> (\<forall>r. redeployAccount s data = Inr r \<longrightarrow>
            onRedeploy s account =
              Inr (fst (updateDeployTx s account (txHash r)),
                   [RedeployAccount data, UpdateDeployTx (txHash r)]))"
  using assms by (auto simp: onRedeploy_def split: prod.splits)

text \<open>C1 at the sample collaborators: a rejection leaves the account without deploy
  transaction, a result \<open>0x1\<close> is handed to \<open>updateDeployTx\<close>.\<close>

theorem onRedeploy_swallows_error_witness:
  "onRedeploy rejecting_services None = Inr (None, [RedeployAccount ''0xabc''])
   \<and> onRedeploy resolving_services None =
       Inr (Some ''0x1'', [RedeployAccount ''0xabc'', UpdateDeployTx ''0x1''])"
proof -
  have d1: "toBaseWalletAccount rejecting_services None = Inr ''0xabc''"
    by (simp add: rejecting_services_def)
  have r1: "redeployAccount rejecting_services ''0xabc'' = Inl (Error ''rejected'')"
    by (simp add: rejecting_services_def)
  have d2: "toBaseWalletAccount resolving_services None = Inr ''0xabc''"
    by (simp add: resolving_services_def)
  have r2: "redeployAccount resolving_services ''0xabc'' = Inr \<lparr>txHash = ''0x1''\<rparr>"
    by (simp add: resolving_services_def)
  have u2: "updateDeployTx resolving_services None ''0x1'' = (Some ''0x1'', None)"
    by (simp add: resolving_services_def)
  show ?thesis
    using onRedeploy_swallows_error[OF d1] onRedeploy_swallows_error[OF d2] r1 r2 u2
    by simp
qed

section \<open>The error boundary of the token list\<close>

text \<open>
  C2, as stated, fails: the boundary and its content are rendered only for a deployed
  account (line 166). For the sample account, not deployed and with the token-balance
  hook reporting an error, no copy-error element is rendered.
\<close>

theorem error_fallback_not_deployed_counterexample:
  "error (useTokensWithBalance
            (sample_env\<lparr>useAccountIsDeployed := (\<lambda>a. False),
                         useTokensWithBalance := (\<lambda>a. failed_tokens)\<rparr>) 1)
     = Some (Error ''timeout'')
   \<and> \<not> renders is_copy_error_fallback
         (fst (AccountTokens (mount sample_timers) (1::nat)
                 (sample_env\<lparr>useAccountIsDeployed := (\<lambda>a. False),
                              useTokensWithBalance := (\<lambda>a. failed_tokens)\<rparr>)))"
  by (simp add: fst_AccountTokens sample_env_def failed_tokens_def tree_defs)

text \<open>
  C2, amended. In every render of a deployed account the tree has a single error
  boundary; its fallback is the copy-error element with the message "Sorry, an error
  occurred fetching tokens"; its only child is the copy-error element with the reported
  error and that message when the token-balance hook reports an error (and then no
  TokenList is rendered), and the TokenList otherwise. In a render of an account that is
  not deployed neither the boundary, nor the TokenList, nor the copy-error element is
  rendered.
\<close>

theorem token_list_error_boundary:
  "(useAccountIsDeployed e a \<longrightarrow>
      filter is_error_boundary (subtrees (fst (AccountTokens c a e))) =
        [ErrorBoundary (ErrorBoundaryFallbackWithCopyError None fetching_tokens_message)
           [token_list_or_error e a]]
      \<and> (\<forall>err. error (useTokensWithBalance e a) = Some err \<longrightarrow>
            token_list_or_error e a =
              ErrorBoundaryFallbackWithCopyError (Some err) fetching_tokens_message
            \<and> renders is_copy_error_fallback (fst (AccountTokens c a e))
            \<and> \<not> renders is_token_list (fst (AccountTokens c a e)))
      \<and> (error (useTokensWithBalance e a) = None \<longrightarrow>
            is_token_list (token_list_or_error e a)
            \<and> \<not> renders is_copy_error_fallback (fst (AccountTokens c a e))))
   \<and> (\<not> useAccountIsDeployed e a \<longrightarrow>
        \<not> renders is_error_boundary (fst (AccountTokens c a e))
        \<and> \<not> renders is_token_list (fst (AccountTokens c a e))
        \<and> \<not> renders is_copy_error_fallback (fst (AccountTokens c a e)))"
proof (cases "useAccountIsDeployed e a")
  case False
  then show ?thesis
    by (simp add: fst_AccountTokens renders_def AccountTokens_jsx_def banners_def
        cond_child_def)
next
  case True
  show ?thesis
  proof (cases "error (useTokensWithBalance e a)")
    case None
    with True show ?thesis
      by (simp add: fst_AccountTokens renders_def AccountTokens_jsx_def banners_def
          cond_child_def token_list_or_error_def)
  next
    case (Some err)
    with True show ?thesis
      by (simp add: fst_AccountTokens renders_def AccountTokens_jsx_def banners_def
          cond_child_def token_list_or_error_def)
  qed
qed

text \<open>C2, amended, at the sample account with a reported error: deployed, the error is
  shown in place of the list; not deployed, nothing is.\<close>

theorem token_list_error_boundary_witness:
  "renders is_copy_error_fallback
     (fst (AccountTokens (mount sample_timers) (1::nat)
             (sample_env\<lparr>useTokensWithBalance := (\<lambda>a. failed_tokens)\<rparr>)))
   \<and> \<not> renders is_token_list
       (fst (AccountTokens (mount sample_timers) (1::nat)
               (sample_env\<lparr>useTokensWithBalance := (\<lambda>a. failed_tokens)\<rparr>)))
   \<and> \<not> renders is_error_boundary
       (fst (AccountTokens (mount sample_timers) (1::nat)
               (sample_env\<lparr>useAccountIsDeployed := (\<lambda>a. False)\<rparr>)))"
proof -
  let ?e1 = "sample_env\<lparr>useTokensWithBalance := (\<lambda>a. failed_tokens)\<rparr>"
  let ?e2 = "sample_env\<lparr>useAccountIsDeployed := (\<lambda>a. False)\<rparr>"
  have h1: "useAccountIsDeployed ?e1 1" by (simp add: sample_env_def)
  have h2: "error (useTokensWithBalance ?e1 1) = Some (Error ''timeout'')"
    by (simp add: failed_tokens_def)
  have h3: "\<not> useAccountIsDeployed ?e2 1" by simp
  show ?thesis
    using token_list_error_boundary[of ?e1 1 "mount sample_timers"]
          token_list_error_boundary[of ?e2 1 "mount sample_timers"] h1 h2 h3
    by blast
qed

section \<open>Banners\<close>

text \<open>
  C3. In every render the upgrade banner (not \<open>canNotPay\<close>, linking to the
  account-upgrade route) is rendered if and only if \<open>needsUpgrade\<close> is true, there is no
  pending transaction and the fee token balance is defined and greater than zero.
\<close>

theorem upgrade_banner_iff:
  "renders is_upgrade_banner (fst (AccountTokens c a e)) =
     (needsUpgrade e \<and> useAccountTransactions e a = []
      \<and> (\<exists>b. useFeeTokenBalance e a = Some b \<and> 0 < b))"
  unfolding fst_AccountTokens renders_upgrade_banner by (rule showUpgradeBanner_iff)

text \<open>C3 at the sample account, whose balance is 5.\<close>

theorem upgrade_banner_iff_witness:
  "renders is_upgrade_banner (fst (AccountTokens (mount sample_timers) (1::nat) sample_env))"
  using upgrade_banner_iff[of "mount sample_timers" 1 sample_env]
  by (simp add: sample_env_def needsUpgrade_def)

text \<open>
  C4. In every render the no-balance upgrade banner (\<open>canNotPay\<close>, linking to the funding
  route) is rendered if and only if \<open>needsUpgrade\<close> is true, there is no pending
  transaction and the fee token balance is defined and at most zero.
\<close>

theorem no_balance_banner_iff:
  "renders is_no_balance_banner (fst (AccountTokens c a e)) =
     (needsUpgrade e \<and> useAccountTransactions e a = []
      \<and> (\<exists>b. useFeeTokenBalance e a = Some b \<and> b \<le> 0))"
  unfolding fst_AccountTokens renders_no_balance_banner
  by (rule showNoBalanceForUpgrade_iff)

text \<open>C4 at the sample account with a balance of 0.\<close>

theorem no_balance_banner_iff_witness:
  "renders is_no_balance_banner
     (fst (AccountTokens (mount sample_timers) (1::nat)
             (sample_env\<lparr>useFeeTokenBalance := (\<lambda>a. Some 0)\<rparr>)))"
  using no_balance_banner_iff[of "mount sample_timers" 1
          "sample_env\<lparr>useFeeTokenBalance := (\<lambda>a. Some 0)\<rparr>"]
  by (simp add: sample_env_def needsUpgrade_def)

text \<open>
  C5. In every render the backup (recovery) banner is rendered if and only if a backup is
  required and the upgrade banner is not rendered.
\<close>

theorem backup_banner_iff:
  "renders is_recovery_banner (fst (AccountTokens c a e)) =
     (useBackupRequired e \<and> \<not> renders is_upgrade_banner (fst (AccountTokens c a e)))"
  unfolding fst_AccountTokens renders_recovery_banner renders_upgrade_banner
  by (rule showBackupBanner_def)

text \<open>C5 at the sample account: with the upgrade banner shown the backup banner is
  not; while the balance is unknown it is.\<close>

theorem backup_banner_iff_witness:
  "\<not> renders is_recovery_banner
       (fst (AccountTokens (mount sample_timers) (1::nat) sample_env))
   \<and> renders is_recovery_banner
       (fst (AccountTokens (mount sample_timers) (1::nat)
               (sample_env\<lparr>useFeeTokenBalance := (\<lambda>a. None)\<rparr>)))"
proof -
  let ?e = "sample_env\<lparr>useFeeTokenBalance := (\<lambda>a. None)\<rparr>"
  have u1: "renders is_upgrade_banner
              (fst (AccountTokens (mount sample_timers) (1::nat) sample_env))"
    by (simp add: fst_AccountTokens tree_defs sample_env_def needsUpgrade_def)
  have u2: "\<not> renders is_upgrade_banner
              (fst (AccountTokens (mount sample_timers) (1::nat) ?e))"
    by (simp add: fst_AccountTokens tree_defs sample_env_def needsUpgrade_def)
  have b: "useBackupRequired ?e" by (simp add: sample_env_def)
  show ?thesis
    using backup_banner_iff[of "mount sample_timers" 1 sample_env]
          backup_banner_iff[of "mount sample_timers" 1 ?e] u1 u2 b
    by blast
qed

text \<open>
  C6. For every account and every value of the other hooks, in every render the migration
  banner is rendered if and only if \<open>isDeprecated(account)\<close> is true.
\<close>

theorem migration_banner_iff:
  "renders is_migration_banner (fst (AccountTokens c a e)) = isDeprecated e a"
  unfolding fst_AccountTokens by (rule renders_migration_banner)

text \<open>C6 at the sample hooks, for which account 0 is deprecated and account 1 is not.\<close>

theorem migration_banner_iff_witness:
  "renders is_migration_banner
     (fst (AccountTokens (mount sample_timers) (0::nat) sample_env))
   \<and> \<not> renders is_migration_banner
       (fst (AccountTokens (mount sample_timers) (1::nat) sample_env))"
  using migration_banner_iff[of "mount sample_timers" 0 sample_env]
        migration_banner_iff[of "mount sample_timers" 1 sample_env]
  by (simp add: sample_env_def)

text \<open>
  C10. In every render at most one of the two upgrade banners is rendered, and while
  the fee token balance is undefined neither is, whatever \<open>needsUpgrade\<close> says.
\<close>

theorem upgrade_banners_exclusive:
  "\<not> (renders is_upgrade_banner (fst (AccountTokens c a e))
      \<and> renders is_no_balance_banner (fst (AccountTokens c a e)))
   \<and> (useFeeTokenBalance e a = None \<longrightarrow>
        \<not> renders is_upgrade_banner (fst (AccountTokens c a e))
        \<and> \<not> renders is_no_balance_banner (fst (AccountTokens c a e)))"
proof -
  have both: "\<not> (showUpgradeBanner e a \<and> showNoBalanceForUpgrade e a)"
    by (auto simp: showUpgradeBanner_iff showNoBalanceForUpgrade_iff)
  have undefined_balance:
    "useFeeTokenBalance e a = None \<Longrightarrow>
       \<not> showUpgradeBanner e a \<and> \<not> showNoBalanceForUpgrade e a"
    by (simp add: showUpgradeBanner_iff showNoBalanceForUpgrade_iff)
  show ?thesis
    unfolding fst_AccountTokens renders_upgrade_banner renders_no_balance_banner
    using both undefined_balance by blast
qed

text \<open>C10 at the sample account, which needs an upgrade, while its balance is
  undefined.\<close>

theorem upgrade_banners_exclusive_witness:
  "needsUpgrade (sample_env\<lparr>useFeeTokenBalance := (\<lambda>a. None)\<rparr>)
   \<and> \<not> renders is_upgrade_banner
       (fst (AccountTokens (mount sample_timers) (1::nat)
               (sample_env\<lparr>useFeeTokenBalance := (\<lambda>a. None)\<rparr>)))
   \<and> \<not> renders is_no_balance_banner
       (fst (AccountTokens (mount sample_timers) (1::nat)
               (sample_env\<lparr>useFeeTokenBalance := (\<lambda>a. None)\<rparr>)))"
  using upgrade_banners_exclusive[of "mount sample_timers" 1
          "sample_env\<lparr>useFeeTokenBalance := (\<lambda>a. None)\<rparr>"]
  by (simp add: sample_env_def needsUpgrade_def)

section \<open>Effects\<close>

text \<open>
  C7. Let the component be mounted with timers whose handles are positive and below the
  next handle, and rendered any number of times, the last time with hook values \<open>e\<close>.
  If the user has not reviewed and \<open>transactionsBeforeReview\<close> is 0, the component has
  one timer pending, for a navigation to the user-review route after 1000 ms; in every
  other combination of the two values it has none; and the cleanup of the effect (here
  on unmount) cancels the pending timer.
\<close>

theorem review_navigation_scheduled:
  assumes fresh: "\<forall>x\<in>set (pending t0). fst x < next_id t0" and pos: "0 < next_id t0"
    and c: "c = renders_from (mount t0) (rs @ [(a, e)])"
  shows "(\<not> hasReviewed e \<and> transactionsBeforeReview e = 0 \<longrightarrow>
            (\<exists>i. timeoutId c = Some i
                  \<and> pending (window_timers c) = pending t0 @ [(i, 1000, UserReview)]))
       \<and> (\<not> (\<not> hasReviewed e \<and> transactionsBeforeReview e = 0) \<longrightarrow>
            timeoutId c = None \<and> pending (window_timers c) = pending t0)
       \<and> pending (unmount c) = pending t0"
proof -
  have inv: "review_inv t0 c"
    unfolding c using review_inv_renders[OF fresh pos review_inv_mount] .
  have deps: "review_deps c = Some (useNavigate e, transactionsBeforeReview e, hasReviewed e)"
    unfolding c renders_from_snoc by (rule review_deps_after)
  have un: "pending (unmount c) = pending t0"
    unfolding unmount_def using cleanup_restores(1)[OF fresh inv] .
  show ?thesis using inv deps un
    by (auto simp: review_inv_def split: option.splits)
qed

text \<open>
  C7 at the sample hooks: after the first render one navigation is pending, and
  unmounting cancels it; after a second render in which the user has reviewed none is.
\<close>

theorem review_navigation_scheduled_witness:
  "map snd (pending (window_timers (renders_from (mount sample_timers) [(1::nat, sample_env)])))
     = [(1000, UserReview)]
   \<and> pending (unmount (renders_from (mount sample_timers) [(1::nat, sample_env)])) = []
   \<and> pending (window_timers (renders_from (mount sample_timers)
        [(1::nat, sample_env), (1, sample_env\<lparr>hasReviewed := True\<rparr>)])) = []"
proof -
  have h1: "\<not> hasReviewed sample_env \<and> transactionsBeforeReview sample_env = 0"
    by (simp add: sample_env_def)
  have h2: "\<not> (\<not> hasReviewed (sample_env\<lparr>hasReviewed := True\<rparr>)
               \<and> transactionsBeforeReview (sample_env\<lparr>hasReviewed := True\<rparr>) = 0)"
    by simp
  have p: "pending sample_timers = []" by (simp add: sample_timers_def)
  have a1: "renders_from (mount sample_timers) [(1::nat, sample_env)]
              = renders_from (mount sample_timers) ([] @ [(1, sample_env)])" by simp
  have a2: "renders_from (mount sample_timers)
              [(1::nat, sample_env), (1, sample_env\<lparr>hasReviewed := True\<rparr>)]
            = renders_from (mount sample_timers)
                ([(1, sample_env)] @ [(1, sample_env\<lparr>hasReviewed := True\<rparr>)])" by simp
  show ?thesis
    using review_navigation_scheduled[OF sample_timers_fresh sample_timers_pos a1]
          review_navigation_scheduled[OF sample_timers_fresh sample_timers_pos a2] h1 h2 p
    by auto
qed

text \<open>
  C8, as stated, fails: the effect depends on \<open>shouldShowNetworkUpgradeMessage\<close> alone
  (line 135) and does not run in a render in which the value is what it was in the
  previous render. In the second of two renders with the sample hooks, for which the
  value is true, the component makes no call.
\<close>

theorem network_upgrade_rerender_counterexample:
  "useShouldShowNetworkUpgradeMessage sample_env
   \<and> fst (snd (AccountTokens
                (snd (snd (AccountTokens (mount sample_timers) (1::nat) sample_env)))
                1 sample_env)) = []"
  by (simp add: effect_defs deps_changed_def sample_env_def mount_def
      hasPendingTransactions_def)

text \<open>
  C8, amended. Let the component be mounted and rendered any number of times, and then
  rendered with hook values \<open>e\<close>. If \<open>shouldShowNetworkUpgradeMessage\<close> is true in \<open>e\<close>
  and this is the first render, or its value differs from its value in the previous
  render (with hook values \<open>e'\<close>), the component calls
  \<open>updateLastShownNetworkUpgradeMessage\<close> and then navigates to the network-upgrade-V4
  route, each once. If it is false, or is what it was in the previous render, neither
  call is made.
\<close>

theorem network_upgrade_message_effect:
  "(useShouldShowNetworkUpgradeMessage e \<longrightarrow>
      filter is_upgrade_call (fst (snd (AccountTokens (mount t0) a e))) =
        [UpdateLastShownNetworkUpgradeMessage, Navigate NetworkUpgradeV4])
   \<and> (useShouldShowNetworkUpgradeMessage e
        \<and> useShouldShowNetworkUpgradeMessage e \<noteq> useShouldShowNetworkUpgradeMessage e' \<longrightarrow>
      filter is_upgrade_call
        (fst (snd (AccountTokens (renders_from (mount t0) (rs @ [(a', e')])) a e))) =
        [UpdateLastShownNetworkUpgradeMessage, Navigate NetworkUpgradeV4])
   \<and> (\<not> useShouldShowNetworkUpgradeMessage e \<longrightarrow>
      filter is_upgrade_call (fst (snd (AccountTokens (mount t0) a e))) = []
      \<and> filter is_upgrade_call
          (fst (snd (AccountTokens (renders_from (mount t0) (rs @ [(a', e')])) a e))) = [])
   \<and> (useShouldShowNetworkUpgradeMessage e = useShouldShowNetworkUpgradeMessage e' \<longrightarrow>
      filter is_upgrade_call
        (fst (snd (AccountTokens (renders_from (mount t0) (rs @ [(a', e')])) a e))) = [])"
proof -
  have first: "upgrade_deps (mount t0 :: 'a component) = None"
    by (simp add: mount_def)
  have prev: "upgrade_deps (renders_from (mount t0) (rs @ [(a', e')])) =
      Some (useShouldShowNetworkUpgradeMessage e')"
    unfolding renders_from_snoc by (rule upgrade_deps_after)
  show ?thesis
    unfolding upgrade_calls first prev
    by (auto simp: deps_changed_def upgrade_message_effect_def)
qed

text \<open>
  C8, amended, at the sample hooks, for which the value is true: the calls are made in a
  first render and in a render that follows one in which the value was false; none is
  made in a render that follows one in which the value was true, nor in a render in
  which the value is false.
\<close>

theorem network_upgrade_message_effect_witness:
  "filter is_upgrade_call
     (fst (snd (AccountTokens (mount sample_timers) (1::nat) sample_env))) =
     [UpdateLastShownNetworkUpgradeMessage, Navigate NetworkUpgradeV4]
   \<and> filter is_upgrade_call
       (fst (snd (AccountTokens
                    (renders_from (mount sample_timers)
                       [(1::nat, sample_env\<lparr>useShouldShowNetworkUpgradeMessage := False\<rparr>)])
                    1 sample_env))) =
       [UpdateLastShownNetworkUpgradeMessage, Navigate NetworkUpgradeV4]
   \<and> filter is_upgrade_call
       (fst (snd (AccountTokens (renders_from (mount sample_timers) [(1::nat, sample_env)])
                    1 sample_env))) = []
   \<and> filter is_upgrade_call
       (fst (snd (AccountTokens (renders_from (mount sample_timers) [(1::nat, sample_env)])
                    1 (sample_env\<lparr>useShouldShowNetworkUpgradeMessage := False\<rparr>)))) = []"
proof -
  let ?off = "sample_env\<lparr>useShouldShowNetworkUpgradeMessage := False\<rparr>"
  have on: "useShouldShowNetworkUpgradeMessage sample_env"
    by (simp add: sample_env_def)
  have off: "\<not> useShouldShowNetworkUpgradeMessage ?off"
    by simp
  show ?thesis
    using network_upgrade_message_effect[of sample_env sample_timers 1 ?off "[]" 1]
          network_upgrade_message_effect[of sample_env sample_timers 1 sample_env "[]" 1]
          network_upgrade_message_effect[of ?off sample_timers 1 sample_env "[]" 1] on off
    by simp
qed

section \<open>The tree is a function of the prop and the hook values\<close>



end
